theory Spec2Isabelle
  imports Main
begin

section \<open>JavaScript values\<close>

text \<open>
  The values that reach the form field of
  \<^verbatim>\<open>views/settings/components/forms/formField/index.jsx\<close>: handler arguments, props and
  what the form model returns. Numbers are the integers and NaN; an object is the list
  of its own properties (a DOM event, its target, the router location). The source
  compares only against primitives (\<^verbatim>\<open>value === null\<close>, \<^verbatim>\<open>hash !== `#${name}`\<close>,
  \<^verbatim>\<open>event.key === 'Enter'\<close>), so the identity of an object never decides a branch.
\<close>

datatype jsval =
    JUndefined
  | JNull
  | JBool bool
  | JNum int
  | JNaN
  | JStr string
  | JObj "(string \<times> jsval) list"

datatype error = TypeError

text \<open>ToBoolean: what \<^verbatim>\<open>if (x)\<close>, \<^verbatim>\<open>!x\<close>, \<^verbatim>\<open>x && y\<close> and \<^verbatim>\<open>x || y\<close> test.\<close>

fun truthy :: "jsval \<Rightarrow> bool" where
  "truthy JUndefined = False"
| "truthy JNull = False"
| "truthy (JBool b) = b"
| "truthy (JNum n) = (n \<noteq> 0)"
| "truthy JNaN = False"
| "truthy (JStr s) = (s \<noteq> [])"
| "truthy (JObj ps) = True"

text \<open>
  A property read \<^verbatim>\<open>x.k\<close>, for the keys the source reads (\<^verbatim>\<open>target\<close>, \<^verbatim>\<open>value\<close>,
  \<^verbatim>\<open>key\<close>, \<^verbatim>\<open>hash\<close>): on undefined and null it throws a TypeError, on an object it is
  the property or undefined, on another primitive it is undefined (no prototype of a
  primitive has one of these keys).
\<close>

fun get :: "jsval \<Rightarrow> string \<Rightarrow> error + jsval" where
  "get JUndefined k = Inl TypeError"
| "get JNull k = Inl TypeError"
| "get (JObj ps) k = Inr (case map_of ps k of None \<Rightarrow> JUndefined | Some v \<Rightarrow> v)"
| "get x k = Inr JUndefined"

text \<open>
  The guarded read \<^verbatim>\<open>x && x.k\<close>: a falsy \<open>x\<close> is the result, and the property is read
  on a truthy \<open>x\<close> only, where the read cannot throw (lemma \<open>guarded_get_get\<close> below).
\<close>

fun guarded_get :: "jsval \<Rightarrow> string \<Rightarrow> jsval" where
  "guarded_get (JObj ps) k = (case map_of ps k of None \<Rightarrow> JUndefined | Some v \<Rightarrow> v)"
| "guarded_get x k = (if truthy x then JUndefined else x)"

text \<open>
  Modelled from the spec: the helper \<^verbatim>\<open>defined\<close> is imported from \<^verbatim>\<open>utils\<close>, which is
  not among the sources. The normalisation takes the first argument verbatim "if a value
  is explicitly supplied", and the test of that is \<^verbatim>\<open>defined(e)\<close> on the second argument:
  it holds of every value but undefined and null.
\<close>

definition defined :: "jsval \<Rightarrow> bool" where
  "defined x = (x \<noteq> JUndefined \<and> x \<noteq> JNull)"

section \<open>Normalising the arguments of an input callback\<close>

record normalized =
  norm_value :: jsval
  norm_event :: jsval

text \<open>
  \<^verbatim>\<open>
  const getValueFromEvent = (valueOrEvent, e) => {
    let event = e || valueOrEvent;
    let value = defined(e) ? valueOrEvent : event && event.target && event.target.value;
    return {value, event};
  };
  \<close>
  The fields \<open>norm_value\<close> and \<open>norm_event\<close> are the \<^verbatim>\<open>value\<close> and \<^verbatim>\<open>event\<close> of the
  returned object. \<^verbatim>\<open>event && event.target && event.target.value\<close> is
  two guarded reads, the second on the result of the first.
\<close>

definition getValueFromEvent :: "jsval \<Rightarrow> jsval \<Rightarrow> normalized" where
  "getValueFromEvent valueOrEvent e =
     (let event = (if truthy e then e else valueOrEvent);
          v = (if defined e then valueOrEvent
               else guarded_get (guarded_get event ''target'') ''value'')
      in \<lparr>norm_value = v, norm_event = event\<rparr>)"

text \<open>
  A handler is declared \<^verbatim>\<open>(...args) =>\<close> and calls \<^verbatim>\<open>getValueFromEvent(...args)\<close>: a
  missing argument is undefined, arguments after the second are dropped.
\<close>

definition arg :: "jsval list \<Rightarrow> nat \<Rightarrow> jsval" where
  "arg args i = (if i < length args then args ! i else JUndefined)"

definition getValueFromArgs :: "jsval list \<Rightarrow> normalized" where
  "getValueFromArgs args = getValueFromEvent (arg args 0) (arg args 1)"

section \<open>Props, context and the form model\<close>

text \<open>
  The form model (\<^verbatim>\<open>this.context.form\<close>) is an external collaborator. What the field reads
  from it is a snapshot of its observable state; what the field asks of it is recorded as
  a call, in order, with the arguments passed. The callbacks a caller may pass as props
  (\<^verbatim>\<open>onChange\<close>, \<^verbatim>\<open>onBlur\<close>, \<^verbatim>\<open>onKeyDown\<close>) are recorded the same way; a prop is \<open>True\<close>
  when the caller passed a function. The model's methods and the callbacks are taken to
  return normally.
\<close>

record form_model =
  getValue :: "string \<Rightarrow> jsval"
  getError :: "string \<Rightarrow> jsval"
  getFieldState :: "string \<Rightarrow> jsval \<Rightarrow> jsval"
  initialData :: jsval

record field_context =
  location :: jsval
  form :: form_model

record props =
  name :: string
  className :: jsval
  hideErrorMessage :: jsval
  flexibleControlStateSize :: jsval
  saveOnBlur :: jsval
  saveMessage :: jsval
  saveMessageAlertType :: jsval
  onChange :: bool
  onBlur :: bool
  onKeyDown :: bool
  others :: "(string \<times> jsval) list"

type_synonym element = nat

datatype call =
    Prop string "jsval list"
  | Model string "jsval list"
  | Focus element

definition getModel :: "field_context \<Rightarrow> form_model" where
  "getModel ctx = form ctx"

definition getId :: "props \<Rightarrow> string" where
  "getId p = name p"

section \<open>The handlers\<close>

text \<open>
  \<^verbatim>\<open>
  handleChange = (...args) => {
    let {name, onChange} = this.props;
    let {value, event} = getValueFromEvent(...args);
    let model = this.getModel();
    if (onChange) { onChange(value, event); }
    model.setValue(name, value);
  };
  \<close>
\<close>

definition handleChange :: "props \<Rightarrow> jsval list \<Rightarrow> call list" where
  "handleChange p args =
     (let n = getValueFromArgs args in
      (if onChange p then [Prop ''onChange'' [norm_value n, norm_event n]] else [])
      @ [Model ''setValue'' [JStr (name p), norm_value n]])"

text \<open>
  \<^verbatim>\<open>
  handleBlur = (...args) => {
    let {name, onBlur} = this.props;
    let {value, event} = getValueFromEvent(...args);
    let model = this.getModel();
    if (onBlur) { onBlur(value, event); }
    // Always call this, so model can decide what to do
    model.handleBlurField(name, value);
  };
  \<close>
\<close>

definition handleBlur :: "props \<Rightarrow> jsval list \<Rightarrow> call list" where
  "handleBlur p args =
     (let n = getValueFromArgs args in
      (if onBlur p then [Prop ''onBlur'' [norm_value n, norm_event n]] else [])
      @ [Model ''handleBlurField'' [JStr (name p), norm_value n]])"

text \<open>
  \<^verbatim>\<open>
  handleKeyDown = (...args) => {
    let {onKeyDown, name} = this.props;
    let {value, event} = getValueFromEvent(...args);
    let model = this.getModel();
    if (event.key === 'Enter') { model.handleBlurField(name, value); }
    if (onKeyDown) { onKeyDown(value, event); }
  };
  \<close>
  The read \<^verbatim>\<open>event.key\<close> is not guarded: on an undefined or null event it throws before
  anything is called.
\<close>

definition handleKeyDown :: "props \<Rightarrow> jsval list \<Rightarrow> error + call list" where
  "handleKeyDown p args =
     (let n = getValueFromArgs args in
      case get (norm_event n) ''key'' of
        Inl err \<Rightarrow> Inl err
      | Inr k \<Rightarrow>
          Inr ((if k = JStr ''Enter''
                then [Model ''handleBlurField'' [JStr (name p), norm_value n]] else [])
               @ (if onKeyDown p then [Prop ''onKeyDown'' [norm_value n, norm_event n]] else [])))"

text \<open>
  \<^verbatim>\<open>
  handleSaveField = (...args) => {
    let {name} = this.props;
    let model = this.getModel();
    model.handleSaveField(name, model.getValue(name));
  };
  handleCancelField = (...args) => {
    let {name} = this.props;
    let model = this.getModel();
    model.handleCancelSaveField(name);
  };
  \<close>
\<close>

definition handleSaveField :: "props \<Rightarrow> field_context \<Rightarrow> jsval list \<Rightarrow> call list" where
  "handleSaveField p ctx args =
     (let model = getModel ctx in
      [Model ''handleSaveField'' [JStr (name p), getValue model (name p)]])"

definition handleCancelField :: "props \<Rightarrow> field_context \<Rightarrow> jsval list \<Rightarrow> call list" where
  "handleCancelField p ctx args = [Model ''handleCancelSaveField'' [JStr (name p)]]"

section \<open>The input-mount callback\<close>

text \<open>
  \<^verbatim>\<open>
  handleInputMount = ref => {
    if (ref && !this.input) {
      let hash = this.context.location && this.context.location.hash;
      if (!hash) return;
      if (hash !== `#${this.props.name}`) return;
      ref.focus();
    }
    this.input = ref;
  };
  \<close>
  The state is \<^verbatim>\<open>this.input\<close>: \<open>None\<close> while it is undefined or null, the element
  otherwise. The reference passed is the element, or \<open>None\<close> for the null that React
  passes when the element unmounts. Both early returns leave \<^verbatim>\<open>this.input\<close> as it was.
\<close>

definition handleInputMount ::
  "props \<Rightarrow> field_context \<Rightarrow> element option \<Rightarrow> element option \<Rightarrow> element option \<times> call list"
where
  "handleInputMount p ctx input ref =
     (case ref of
        None \<Rightarrow> (ref, [])
      | Some r \<Rightarrow>
          if input = None then
            (let hash = guarded_get (location ctx) ''hash'' in
             if \<not> truthy hash then (input, [])
             else if hash \<noteq> JStr (CHR ''#'' # name p) then (input, [])
             else (ref, [Focus r]))
          else (ref, []))"

text \<open>
  The callbacks of one field, in the order React makes them, each on the
  \<^verbatim>\<open>this.input\<close> the one before left; the calls are collected in order.
\<close>

fun refCallbacks ::
  "props \<Rightarrow> field_context \<Rightarrow> element option \<Rightarrow> element option list \<Rightarrow> element option \<times> call list"
where
  "refCallbacks p ctx input [] = (input, [])"
| "refCallbacks p ctx input (r # rs) =
     (let (input', c) = handleInputMount p ctx input r;
          (input'', cs) = refCallbacks p ctx input' rs
      in (input'', c @ cs))"

section \<open>Rendering\<close>

text \<open>
  \<^verbatim>\<open>FormState\<close> comes from \<^verbatim>\<open>components/forms/state\<close>, which is not among the sources:
  its two constants are parameters of the rendering.
\<close>

record form_state_keys =
  SAVING :: jsval
  READY :: jsval

datatype indicator =
    FormSpinner
  | FormFieldIsSaved string
  | FormFieldError string

text \<open>
  \<^verbatim>\<open>ControlState.render\<close> returns a fragment of two observers. The first shows the
  spinner, the checkmark or nothing; the second the warning icon or nothing. A slot is
  \<open>None\<close> where its observer returns null.
\<close>

record control_state =
  statusSlot :: "indicator option"
  errorSlot :: "indicator option"

definition ControlState_render :: "form_state_keys \<Rightarrow> form_model \<Rightarrow> string \<Rightarrow> control_state" where
  "ControlState_render FormState model nm =
     \<lparr>statusSlot =
        (let isSaving = getFieldState model nm (SAVING FormState);
             isSaved = getFieldState model nm (READY FormState)
         in if truthy isSaving then Some FormSpinner
            else if truthy isSaved then Some (FormFieldIsSaved ''icon-checkmark-sm'')
            else None),
      errorSlot =
        (let err = getError model nm
         in if \<not> truthy err then None else Some (FormFieldError ''icon-warning-sm''))\<rparr>"

text \<open>
  The props of an element are listed in the order the JSX writes them; in a spread a
  later key replaces an earlier one, so a prop is read at its last occurrence. A prop is
  a value, one of the field's own handlers, the input-mount callback, or a function the
  caller passed.
\<close>

datatype handler = HandleChange | HandleBlur | HandleKeyDown | HandleSaveField | HandleCancelField

datatype propval = Val jsval | Bound handler | InputMount | Caller string

definition attr :: "(string \<times> propval) list \<Rightarrow> string \<Rightarrow> propval option" where
  "attr ps k = map_of (rev ps) k"

text \<open>
  \<^verbatim>\<open>...props\<close> in \<^verbatim>\<open>render\<close>: every prop but the seven taken out by name. The
  \<^verbatim>\<open>children\<close> prop, the wrapped control itself, is a component and no value: it is
  left out of the list.
\<close>

definition rest :: "props \<Rightarrow> (string \<times> propval) list" where
  "rest p =
     map (\<lambda>(k, v). (k, Val v))
       (filter (\<lambda>(k, v). k \<notin> set [''className'', ''name'', ''hideErrorMessage'',
          ''flexibleControlStateSize'', ''saveOnBlur'', ''saveMessage'', ''saveMessageAlertType'',
          ''onChange'', ''onBlur'', ''onKeyDown'']) (others p))
     @ (if onChange p then [(''onChange'', Caller ''onChange'')] else [])
     @ (if onBlur p then [(''onBlur'', Caller ''onBlur'')] else [])
     @ (if onKeyDown p then [(''onKeyDown'', Caller ''onKeyDown'')] else [])"

record field_args =
  alignRight :: jsval
  inline :: jsval
  disabled :: jsval
  disabledReason :: jsval

record field_control =
  fieldControlProps :: "(string \<times> propval) list"
  controlState :: control_state
  errorState :: "jsval option"
  control :: "(string \<times> propval) list"
  returnButton :: bool

record button =
  label :: string
  buttonProps :: "(string \<times> propval) list"

record panel_alert =
  alertType :: jsval
  message :: jsval
  actions :: "button list"

record rendered =
  fieldProps :: "(string \<times> propval) list"
  children :: "field_args \<Rightarrow> field_control"
  saveBar :: "panel_alert option"

text \<open>
  \<^verbatim>\<open>FormField.render\<close>. \<^verbatim>\<open>Field\<close> calls its child with
  \<^verbatim>\<open>{alignRight, inline, disabled, disabledReason}\<close>, so the field control is a function of
  them. Each observer is evaluated on the snapshot of the model in the context. The
  error tooltip, the return button and the save bar are absent (\<open>None\<close>, \<open>False\<close>) where
  the source renders null or a falsy value. A label is the message passed to \<^verbatim>\<open>t\<close>.
\<close>

definition render :: "form_state_keys \<Rightarrow> props \<Rightarrow> field_context \<Rightarrow> rendered" where
  "render FormState p ctx =
     (let fid = getId p;
          model = getModel ctx;
          saveOnBlurFieldOverride = (saveOnBlur p \<noteq> JUndefined \<and> \<not> truthy (saveOnBlur p))
      in
      \<lparr>fieldProps =
         [(''id'', Val (JStr fid)), (''name'', Val (JStr (name p))),
          (''className'', Val (className p))] @ rest p,
       children = (\<lambda>a.
         \<lparr>fieldControlProps =
            [(''disabled'', Val (disabled a)), (''disabledReason'', Val (disabledReason a)),
             (''inline'', Val (inline a)), (''alignRight'', Val (alignRight a)),
             (''flexibleControlStateSize'', Val (flexibleControlStateSize p))],
          controlState = ControlState_render FormState model (name p),
          errorState =
            (let err = getError model (name p)
             in if truthy err \<and> \<not> truthy (hideErrorMessage p) then Some err else None),
          control =
            (let err = getError model (name p);
                 v = getValue model (name p)
             in [(''innerRef'', InputMount)]
                @ rest p
                @ [(''name'', Val (JStr (name p))),
                   (''id'', Val (JStr fid)),
                   (''onKeyDown'', Bound HandleKeyDown),
                   (''onChange'', Bound HandleChange),
                   (''onBlur'', Bound HandleBlur),
                   (''value'', Val (if v = JNull then JStr [] else v)),
                   (''error'', Val err),
                   (''disabled'', Val (disabled a))]
                @ [(''initialData'', Val (initialData model))]),
          returnButton = truthy (getFieldState model (name p) (JStr ''showReturnButton''))\<rparr>),
       saveBar =
         (if saveOnBlurFieldOverride then
            (let showFieldSave = getFieldState model (name p) (JStr ''showSave'')
             in if \<not> truthy showFieldSave then None
                else Some
                  \<lparr>alertType = saveMessageAlertType p,
                   message = saveMessage p,
                   actions =
                     [\<lparr>label = ''Cancel'',
                       buttonProps = [(''onClick'', Bound HandleCancelField)]\<rparr>,
                      \<lparr>label = ''Save'',
                       buttonProps = [(''priority'', Val (JStr ''primary'')),
                                      (''type'', Val (JStr ''button'')),
                                      (''onClick'', Bound HandleSaveField)]\<rparr>]\<rparr>)
          else None)\<rparr>)"

text \<open>
  Calling a prop of a rendered element: a bound handler runs on the arguments it is
  given; a prop that is no handler of the field is not callable here.
\<close>

fun invoke :: "propval option \<Rightarrow> props \<Rightarrow> field_context \<Rightarrow> jsval list \<Rightarrow> (error + call list) option" where
  "invoke (Some (Bound HandleChange)) p ctx args = Some (Inr (handleChange p args))"
| "invoke (Some (Bound HandleBlur)) p ctx args = Some (Inr (handleBlur p args))"
| "invoke (Some (Bound HandleKeyDown)) p ctx args = Some (handleKeyDown p args)"
| "invoke (Some (Bound HandleSaveField)) p ctx args = Some (Inr (handleSaveField p ctx args))"
| "invoke (Some (Bound HandleCancelField)) p ctx args = Some (Inr (handleCancelField p ctx args))"
| "invoke other p ctx args = None"

text \<open>Whether the location's fragment is \<^verbatim>\<open>#\<close> followed by the field's name.\<close>

definition hashMatches :: "props \<Rightarrow> field_context \<Rightarrow> bool" where
  "hashMatches p ctx = (guarded_get (location ctx) ''hash'' = JStr (CHR ''#'' # name p))"

section \<open>An example field\<close>

text \<open>
  A field named \<^verbatim>\<open>email\<close> with all three callbacks, a model in which the field is null,
  in error, saving and waiting for a save, a location with the fragment \<^verbatim>\<open>#email\<close>, and
  a DOM-style event with a key and a target value.
\<close>

definition example_props :: props where
  "example_props =
     \<lparr>name = ''email'', className = JUndefined, hideErrorMessage = JBool False,
      flexibleControlStateSize = JBool False, saveOnBlur = JUndefined,
      saveMessage = JStr ''Saving changes your address'', saveMessageAlertType = JStr ''info'',
      onChange = True, onBlur = True, onKeyDown = True, others = [(''label'', JStr ''Email'')]\<rparr>"

definition example_model :: form_model where
  "example_model =
     \<lparr>getValue = (\<lambda>k. if k = ''email'' then JNull else JUndefined),
      getError = (\<lambda>k. if k = ''email'' then JStr ''Invalid'' else JUndefined),
      getFieldState = (\<lambda>k s. if k = ''email'' \<and> (s = JStr ''Saving'' \<or> s = JStr ''showSave'')
                              then JBool True else JUndefined),
      initialData = JObj []\<rparr>"

definition example_context :: field_context where
  "example_context = \<lparr>location = JObj [(''hash'', JStr ''#email'')], form = example_model\<rparr>"

definition example_keys :: form_state_keys where
  "example_keys = \<lparr>SAVING = JStr ''Saving'', READY = JStr ''Ready''\<rparr>"

definition example_event :: "string \<Rightarrow> string \<Rightarrow> jsval" where
  "example_event k v = JObj [(''key'', JStr k), (''target'', JObj [(''value'', JStr v)])]"

definition example_args :: field_args where
  "example_args =
     \<lparr>alignRight = JUndefined, inline = JUndefined, disabled = JBool False,
      disabledReason = JUndefined\<rparr>"

section \<open>Properties of the normalisation\<close>

text \<open>A guarded read is the throwing read where it is made, and never throws.\<close>

lemma guarded_get_get:
  "(Inr (guarded_get x k) :: error + jsval) = (if truthy x then get x k else Inr x)"
  by (cases x) simp_all

lemma get_defined: "defined x \<Longrightarrow> \<exists>v. get x k = Inr v"
  by (cases x) (simp_all add: defined_def)

lemma get_not_defined: "\<not> defined x \<Longrightarrow> get x k = Inl TypeError"
  by (cases x) (simp_all add: defined_def)

lemma getValueFromArgs_pair: "getValueFromArgs (v # e # extra) = getValueFromEvent v e"
  by (simp add: getValueFromArgs_def arg_def)

lemma getValueFromArgs_single: "getValueFromArgs [v] = getValueFromEvent v JUndefined"
  by (simp add: getValueFromArgs_def arg_def)

lemma getValueFromArgs_example_event [simp]:
  "getValueFromArgs [example_event k v] = \<lparr>norm_value = JStr v, norm_event = example_event k v\<rparr>"
  by (simp add: getValueFromArgs_def arg_def getValueFromEvent_def Let_def defined_def
        example_event_def)

lemma get_key_example_event [simp]: "get (example_event k v) ''key'' = Inr (JStr k)"
  by (simp add: example_event_def)

lemma defined_example_event [simp]: "defined (example_event k v)"
  by (simp add: example_event_def defined_def)

lemma getValueFromEvent_not_defined:
  "\<not> defined e \<Longrightarrow>
     getValueFromEvent v e =
       \<lparr>norm_value = guarded_get (guarded_get v ''target'') ''value'', norm_event = v\<rparr>"
  by (cases e) (simp_all add: getValueFromEvent_def Let_def defined_def)

lemma guarded_chain_falsy:
  "\<not> truthy v \<Longrightarrow> guarded_get (guarded_get v ''target'') ''value'' = v"
  by (cases v) simp_all

lemma guarded_chain_target:
  "truthy v \<Longrightarrow> get v ''target'' = Inr t \<Longrightarrow>
     (if truthy t then get t ''value'' else Inr t)
       = Inr (guarded_get (guarded_get v ''target'') ''value'')"
  by (cases v; cases t) auto

text \<open>
  C1, as amended. When the second argument of a handler is defined (neither undefined
  nor null), the normalised value is the first argument verbatim, whatever the second
  argument is and whatever follows it. When the second argument is absent, undefined or
  null, the first argument is read as the event: the normalised event is the first
  argument, and the normalised value is the guarded chain
  \<^verbatim>\<open>x && x.target && x.target.value\<close> on it, that is the first argument itself when it is
  falsy, its target when that is falsy, and otherwise what the read of the target's value
  gives.
\<close>

theorem explicit_value_verbatim:
  "(defined e \<longrightarrow>
      norm_value (getValueFromEvent v e) = v \<and>
      norm_value (getValueFromArgs (v # e # extra)) = v) \<and>
   (\<not> defined e \<longrightarrow>
      getValueFromArgs (v # e # extra) = getValueFromEvent v e \<and>
      getValueFromArgs [v] = getValueFromEvent v e \<and>
      norm_event (getValueFromEvent v e) = v \<and>
      norm_value (getValueFromEvent v e) = guarded_get (guarded_get v ''target'') ''value'' \<and>
      (\<not> truthy v \<longrightarrow> norm_value (getValueFromEvent v e) = v) \<and>
      (\<forall>t. truthy v \<and> get v ''target'' = Inr t \<longrightarrow>
         (if truthy t then get t ''value'' else Inr t)
           = Inr (norm_value (getValueFromEvent v e))))"
proof (cases "defined e")
  case True
  then show ?thesis
    by (simp add: getValueFromArgs_pair getValueFromEvent_def Let_def)
next
  case False
  then have single: "getValueFromEvent v JUndefined = getValueFromEvent v e"
    by (simp add: getValueFromEvent_not_defined defined_def)
  from False show ?thesis
    using guarded_chain_falsy [of v] guarded_chain_target [of v]
    by (simp add: getValueFromArgs_pair getValueFromArgs_single single
          getValueFromEvent_not_defined)
qed

theorem explicit_value_verbatim_witness:
  "defined (example_event ''a'' ''xyz'') \<and>
   norm_value (getValueFromEvent (JStr ''abc'') (example_event ''a'' ''xyz'')) = JStr ''abc'' \<and>
   norm_value (getValueFromArgs [JStr ''abc'', example_event ''a'' ''xyz'']) = JStr ''abc'' \<and>
   \<not> defined JNull \<and>
   \<not> truthy (JBool False) \<and>
   norm_value (getValueFromArgs [JBool False, JNull]) = JBool False \<and>
   norm_value (getValueFromArgs [JBool False]) = JBool False \<and>
   truthy (example_event ''a'' ''xyz'') \<and>
   get (example_event ''a'' ''xyz'') ''target'' = Inr (JObj [(''value'', JStr ''xyz'')]) \<and>
   norm_value (getValueFromArgs [example_event ''a'' ''xyz'']) = JStr ''xyz''"
  using explicit_value_verbatim [of "example_event ''a'' ''xyz''" "JStr ''abc''" "[]"]
    explicit_value_verbatim [of JNull "JBool False" "[]"]
    explicit_value_verbatim [of JUndefined "example_event ''a'' ''xyz''" "[]"]
  by (simp add: defined_def example_event_def)

text \<open>
  C1 as stated fails when no event argument is supplied: a handler called with the value
  \<^verbatim>\<open>'abc'\<close> alone normalises it to undefined (the read \<^verbatim>\<open>'abc'.target\<close>), and
  \<^verbatim>\<open>handleChange\<close> then writes undefined into the model.
\<close>

theorem explicit_value_alone_counterexample:
  "norm_value (getValueFromArgs [JStr ''abc'']) = JUndefined \<and>
   norm_value (getValueFromArgs [JStr ''abc'']) \<noteq> JStr ''abc'' \<and>
   handleChange example_props [JStr ''abc''] =
     [Prop ''onChange'' [JUndefined, JStr ''abc''],
      Model ''setValue'' [JStr ''email'', JUndefined]]"
  by (simp add: handleChange_def getValueFromArgs_single getValueFromEvent_def Let_def
        defined_def example_props_def)

text \<open>
  C8. When a handler is called with an event alone, and the event has a target that is
  an object (any truthy target), the normalised value is what the read
  \<^verbatim>\<open>event.target.value\<close> gives, and the normalised event is that event.
\<close>

theorem event_only_target_value:
  "get ev ''target'' = Inr t \<Longrightarrow> truthy t \<Longrightarrow>
     get t ''value'' = Inr (norm_value (getValueFromArgs [ev])) \<and>
     norm_event (getValueFromArgs [ev]) = ev"
  by (cases ev; cases t)
     (auto simp add: getValueFromArgs_single getValueFromEvent_def Let_def defined_def)

theorem event_only_target_value_witness:
  "get (JObj [(''target'', JObj [(''value'', JStr ''xyz'')])]) ''target''
     = Inr (JObj [(''value'', JStr ''xyz'')]) \<and>
   truthy (JObj [(''value'', JStr ''xyz'')]) \<and>
   norm_value (getValueFromArgs [JObj [(''target'', JObj [(''value'', JStr ''xyz'')])]])
     = JStr ''xyz''"
  using event_only_target_value [of "JObj [(''target'', JObj [(''value'', JStr ''xyz'')])]"
          "JObj [(''value'', JStr ''xyz'')]"]
  by simp

section \<open>Properties of the handlers\<close>

text \<open>
  C2. Every call of \<^verbatim>\<open>handleChange\<close> ends by writing the normalised value into the model
  with \<^verbatim>\<open>setValue(name, value)\<close>. With an \<^verbatim>\<open>onChange\<close> prop, \<^verbatim>\<open>onChange(value, event)\<close> is
  called first; without one, the write is the only call.
\<close>

theorem handleChange_writes_model:
  "(onChange p \<longrightarrow>
      handleChange p args =
        [Prop ''onChange'' [norm_value (getValueFromArgs args), norm_event (getValueFromArgs args)],
         Model ''setValue'' [JStr (name p), norm_value (getValueFromArgs args)]]) \<and>
   (\<not> onChange p \<longrightarrow>
      handleChange p args =
        [Model ''setValue'' [JStr (name p), norm_value (getValueFromArgs args)]])"
  by (simp add: handleChange_def Let_def)

theorem handleChange_writes_model_witness:
  "onChange example_props \<and>
   handleChange example_props [example_event ''a'' ''me@x''] =
     [Prop ''onChange'' [JStr ''me@x'', example_event ''a'' ''me@x''],
      Model ''setValue'' [JStr ''email'', JStr ''me@x'']]"
  using handleChange_writes_model [of example_props "[example_event ''a'' ''me@x'']"]
  by (simp add: example_props_def)

text \<open>
  C3. With \<^verbatim>\<open>saveOnBlur\<close> unset or true, every call of \<^verbatim>\<open>handleBlur\<close> calls
  \<^verbatim>\<open>handleBlurField(name, value)\<close> on the model with the normalised value, after \<^verbatim>\<open>onBlur\<close>
  when that prop is given; and for every state of the model the rendering has no save
  bar.
\<close>

theorem saveOnBlur_blur_notifies_no_bar:
  "saveOnBlur p = JUndefined \<or> saveOnBlur p = JBool True \<Longrightarrow>
     handleBlur p args =
       (if onBlur p
        then [Prop ''onBlur'' [norm_value (getValueFromArgs args), norm_event (getValueFromArgs args)]]
        else [])
       @ [Model ''handleBlurField'' [JStr (name p), norm_value (getValueFromArgs args)]]
     \<and> saveBar (render FormState p ctx) = None"
  by (auto simp add: handleBlur_def render_def Let_def)

theorem saveOnBlur_blur_notifies_no_bar_witness:
  "(saveOnBlur example_props = JUndefined \<or> saveOnBlur example_props = JBool True) \<and>
   handleBlur example_props [example_event ''a'' ''me@x''] =
     [Prop ''onBlur'' [JStr ''me@x'', example_event ''a'' ''me@x''],
      Model ''handleBlurField'' [JStr ''email'', JStr ''me@x'']] \<and>
   saveBar (render example_keys example_props example_context) = None"
  using saveOnBlur_blur_notifies_no_bar [of example_props "[example_event ''a'' ''me@x'']"
          example_keys example_context]
  by (simp add: example_props_def)

text \<open>
  C4. With \<^verbatim>\<open>saveOnBlur\<close> false and the model's \<^verbatim>\<open>showSave\<close> state of the field truthy,
  the save bar is rendered with exactly two actions, Cancel then Save. Clicking Save,
  with any arguments, calls \<^verbatim>\<open>handleSaveField(name, getValue(name))\<close> on the model;
  clicking Cancel calls \<^verbatim>\<open>handleCancelSaveField(name)\<close>, with the name alone.
\<close>

theorem save_bar_actions:
  "saveOnBlur p = JBool False \<Longrightarrow>
   truthy (getFieldState (form ctx) (name p) (JStr ''showSave'')) \<Longrightarrow>
   \<exists>cancel save.
     saveBar (render FormState p ctx) =
       Some \<lparr>alertType = saveMessageAlertType p, message = saveMessage p,
             actions = [cancel, save]\<rparr> \<and>
     label cancel = ''Cancel'' \<and> label save = ''Save'' \<and>
     invoke (attr (buttonProps save) ''onClick'') p ctx args =
       Some (Inr [Model ''handleSaveField'' [JStr (name p), getValue (form ctx) (name p)]]) \<and>
     invoke (attr (buttonProps cancel) ''onClick'') p ctx args =
       Some (Inr [Model ''handleCancelSaveField'' [JStr (name p)]])"
  by (simp add: render_def Let_def getModel_def attr_def handleSaveField_def
        handleCancelField_def)

theorem save_bar_actions_witness:
  "saveOnBlur (example_props\<lparr>saveOnBlur := JBool False\<rparr>) = JBool False \<and>
   truthy (getFieldState (form example_context)
     (name (example_props\<lparr>saveOnBlur := JBool False\<rparr>)) (JStr ''showSave'')) \<and>
   map_option (\<lambda>b. map label (actions b))
     (saveBar (render example_keys (example_props\<lparr>saveOnBlur := JBool False\<rparr>) example_context))
     = Some [''Cancel'', ''Save'']"
  using save_bar_actions [of "example_props\<lparr>saveOnBlur := JBool False\<rparr>" example_context
          example_keys "[]"]
  by (auto simp add: example_props_def example_context_def example_model_def)

text \<open>
  Without an event and without a value (the normalised event undefined or null),
  \<^verbatim>\<open>handleKeyDown\<close> throws at \<^verbatim>\<open>event.key\<close> and calls nothing.
\<close>

lemma handleKeyDown_no_event:
  "\<not> defined (norm_event (getValueFromArgs args)) \<Longrightarrow> handleKeyDown p args = Inl TypeError"
  by (simp add: handleKeyDown_def Let_def get_not_defined)

lemma norm_event_not_defined:
  "(\<not> defined (norm_event (getValueFromArgs args)))
     = (\<not> truthy (arg args 1) \<and> \<not> defined (arg args 0))"
  by (cases "arg args 1") (auto simp add: getValueFromArgs_def getValueFromEvent_def Let_def defined_def)

lemma norm_event_null_alone: "norm_event (getValueFromArgs [JNull]) = JNull"
  by (simp add: getValueFromArgs_def getValueFromEvent_def arg_def Let_def)

text \<open>
  C5, as amended. Every call of \<^verbatim>\<open>handleKeyDown\<close> whose normalised event is neither
  undefined nor null returns normally; it calls \<^verbatim>\<open>handleBlurField(name, value)\<close> on the
  model exactly when the key is \<^verbatim>\<open>'Enter'\<close>, and then, Enter or not,
  \<^verbatim>\<open>onKeyDown(value, event)\<close> when that prop is given. A call whose normalised event is
  undefined or null (the second argument falsy and the first undefined or null) throws a
  TypeError at \<^verbatim>\<open>event.key\<close> and calls nothing.
\<close>

theorem handleKeyDown_enter_blurs:
  "(defined (norm_event (getValueFromArgs args)) \<longrightarrow>
     (\<exists>k. get (norm_event (getValueFromArgs args)) ''key'' = Inr k \<and>
       handleKeyDown p args =
         Inr ((if k = JStr ''Enter''
               then [Model ''handleBlurField'' [JStr (name p), norm_value (getValueFromArgs args)]]
               else [])
              @ (if onKeyDown p
                 then [Prop ''onKeyDown''
                         [norm_value (getValueFromArgs args), norm_event (getValueFromArgs args)]]
                 else [])))) \<and>
   (\<not> defined (norm_event (getValueFromArgs args)) \<longrightarrow>
      handleKeyDown p args = Inl TypeError) \<and>
   ((\<not> defined (norm_event (getValueFromArgs args)))
      = (\<not> truthy (arg args 1) \<and> \<not> defined (arg args 0)))"
proof -
  have a: "defined (norm_event (getValueFromArgs args)) \<longrightarrow>
     (\<exists>k. get (norm_event (getValueFromArgs args)) ''key'' = Inr k \<and>
       handleKeyDown p args =
         Inr ((if k = JStr ''Enter''
               then [Model ''handleBlurField'' [JStr (name p), norm_value (getValueFromArgs args)]]
               else [])
              @ (if onKeyDown p
                 then [Prop ''onKeyDown''
                         [norm_value (getValueFromArgs args), norm_event (getValueFromArgs args)]]
                 else [])))"
  proof
    assume "defined (norm_event (getValueFromArgs args))"
    then obtain k where k: "get (norm_event (getValueFromArgs args)) ''key'' = Inr k"
      using get_defined by blast
    then show "\<exists>k. get (norm_event (getValueFromArgs args)) ''key'' = Inr k \<and>
       handleKeyDown p args =
         Inr ((if k = JStr ''Enter''
               then [Model ''handleBlurField'' [JStr (name p), norm_value (getValueFromArgs args)]]
               else [])
              @ (if onKeyDown p
                 then [Prop ''onKeyDown''
                         [norm_value (getValueFromArgs args), norm_event (getValueFromArgs args)]]
                 else []))"
      by (simp add: handleKeyDown_def Let_def)
  qed
  show ?thesis
    using a handleKeyDown_no_event [of args p] norm_event_not_defined [of args]
    by blast
qed

theorem handleKeyDown_enter_blurs_witness:
  "defined (norm_event (getValueFromArgs [example_event ''Enter'' ''me@x''])) \<and>
   handleKeyDown example_props [example_event ''Enter'' ''me@x''] =
     Inr [Model ''handleBlurField'' [JStr ''email'', JStr ''me@x''],
          Prop ''onKeyDown'' [JStr ''me@x'', example_event ''Enter'' ''me@x'']] \<and>
   handleKeyDown example_props [example_event ''a'' ''me@x''] =
     Inr [Prop ''onKeyDown'' [JStr ''me@x'', example_event ''a'' ''me@x'']] \<and>
   \<not> defined (norm_event (getValueFromArgs [JNull])) \<and>
   handleKeyDown example_props [JNull] = Inl TypeError"
proof -
  have nd: "\<not> defined (norm_event (getValueFromArgs [JNull]))"
    by (simp add: norm_event_null_alone defined_def)
  have "handleKeyDown example_props [JNull] = Inl TypeError"
    using handleKeyDown_enter_blurs [of "[JNull]" example_props] nd by blast
  moreover have "handleKeyDown example_props [example_event ''Enter'' ''me@x''] =
     Inr [Model ''handleBlurField'' [JStr ''email'', JStr ''me@x''],
          Prop ''onKeyDown'' [JStr ''me@x'', example_event ''Enter'' ''me@x'']]"
    using handleKeyDown_enter_blurs [of "[example_event ''Enter'' ''me@x'']" example_props]
    by (simp add: example_props_def)
  moreover have "handleKeyDown example_props [example_event ''a'' ''me@x''] =
     Inr [Prop ''onKeyDown'' [JStr ''me@x'', example_event ''a'' ''me@x'']]"
    using handleKeyDown_enter_blurs [of "[example_event ''a'' ''me@x'']" example_props]
    by (simp add: example_props_def)
  ultimately show ?thesis using nd by simp
qed

text \<open>
  C5 as stated fails on a call without arguments: the field has an \<^verbatim>\<open>onKeyDown\<close> prop,
  and \<^verbatim>\<open>handleKeyDown()\<close> throws before calling it.
\<close>

theorem handleKeyDown_no_arguments_counterexample:
  "onKeyDown example_props \<and>
   handleKeyDown example_props [] = Inl TypeError \<and>
   handleKeyDown example_props []
     \<noteq> Inr [Prop ''onKeyDown'' [norm_value (getValueFromArgs []), norm_event (getValueFromArgs [])]]"
  by (simp add: handleKeyDown_def getValueFromArgs_def arg_def getValueFromEvent_def Let_def
        defined_def example_props_def)

section \<open>Properties of the rendering\<close>

text \<open>
  C6. In every state of the model, the first slot of \<^verbatim>\<open>ControlState\<close> holds the spinner
  when the field's SAVING state is truthy, otherwise the checkmark when its READY state
  is truthy, otherwise nothing: one indicator at most. The second slot holds the warning
  icon exactly when the model has an error for the field, whatever the first slot holds;
  there is a state in which the spinner and the warning icon are both rendered.
\<close>

theorem control_state_slots:
  "(truthy (getFieldState model nm (SAVING FormState)) \<longrightarrow>
      statusSlot (ControlState_render FormState model nm) = Some FormSpinner) \<and>
   (\<not> truthy (getFieldState model nm (SAVING FormState)) \<and>
    truthy (getFieldState model nm (READY FormState)) \<longrightarrow>
      statusSlot (ControlState_render FormState model nm) =
        Some (FormFieldIsSaved ''icon-checkmark-sm'')) \<and>
   (\<not> truthy (getFieldState model nm (SAVING FormState)) \<and>
    \<not> truthy (getFieldState model nm (READY FormState)) \<longrightarrow>
      statusSlot (ControlState_render FormState model nm) = None) \<and>
   errorSlot (ControlState_render FormState model nm) =
     (if truthy (getError model nm) then Some (FormFieldError ''icon-warning-sm'') else None) \<and>
   (\<exists>m. statusSlot (ControlState_render FormState m nm) = Some FormSpinner \<and>
        errorSlot (ControlState_render FormState m nm) = Some (FormFieldError ''icon-warning-sm''))"
proof -
  let ?m = "\<lparr>getValue = (\<lambda>k. JNull), getError = (\<lambda>k. JStr ''Invalid''),
             getFieldState = (\<lambda>k s. JBool True), initialData = JNull\<rparr>"
  have "statusSlot (ControlState_render FormState ?m nm) = Some FormSpinner \<and>
        errorSlot (ControlState_render FormState ?m nm) = Some (FormFieldError ''icon-warning-sm'')"
    by (simp add: ControlState_render_def)
  then have "\<exists>m. statusSlot (ControlState_render FormState m nm) = Some FormSpinner \<and>
        errorSlot (ControlState_render FormState m nm) = Some (FormFieldError ''icon-warning-sm'')"
    by blast
  then show ?thesis
    by (simp add: ControlState_render_def Let_def)
qed

theorem control_state_slots_witness:
  "truthy (getFieldState example_model ''email'' (SAVING example_keys)) \<and>
   statusSlot (ControlState_render example_keys example_model ''email'') = Some FormSpinner \<and>
   errorSlot (ControlState_render example_keys example_model ''email'') =
     Some (FormFieldError ''icon-warning-sm'')"
  using control_state_slots [of example_model "''email''" example_keys]
  by (simp add: example_model_def example_keys_def)

text \<open>The \<^verbatim>\<open>value\<close> prop the wrapped control receives, whatever else is spread into it.\<close>

lemma attr_value_control:
  "attr (control (children (render FormState p ctx) a)) ''value'' =
     Some (Val (if getValue (form ctx) (name p) = JNull then JStr []
                else getValue (form ctx) (name p)))"
  by (simp add: render_def Let_def attr_def getModel_def)

text \<open>
  C9. In every state of the model in which the field's value is null, the \<^verbatim>\<open>value\<close> prop
  passed to the wrapped control is the empty string, not null.
\<close>

theorem null_value_rendered_empty:
  "getValue (form ctx) (name p) = JNull \<Longrightarrow>
     attr (control (children (render FormState p ctx) a)) ''value'' = Some (Val (JStr [])) \<and>
     attr (control (children (render FormState p ctx) a)) ''value'' \<noteq> Some (Val JNull)"
  by (simp add: attr_value_control)

theorem null_value_rendered_empty_witness:
  "getValue (form example_context) (name example_props) = JNull \<and>
   attr (control (children (render example_keys example_props example_context) example_args))
     ''value'' = Some (Val (JStr []))"
  using null_value_rendered_empty [of example_context example_props example_keys example_args]
  by (simp add: example_context_def example_model_def example_props_def)

text \<open>
  C10. Only null is replaced: every other value of the field (undefined, false, 0 and the
  empty string among them) is passed to the wrapped control unchanged.
\<close>

theorem only_null_coerced:
  "getValue (form ctx) (name p) \<noteq> JNull \<Longrightarrow>
     attr (control (children (render FormState p ctx) a)) ''value'' =
       Some (Val (getValue (form ctx) (name p)))"
  by (simp add: attr_value_control)

theorem only_null_coerced_witness:
  "getValue (form example_context) ''other'' \<noteq> JNull \<and>
   attr (control (children (render example_keys (example_props\<lparr>name := ''other''\<rparr>)
       example_context) example_args)) ''value'' = Some (Val JUndefined)"
  using only_null_coerced [of example_context "example_props\<lparr>name := ''other''\<rparr>" example_keys
          example_args]
  by (simp add: example_context_def example_model_def example_props_def)

section \<open>Properties of the input-mount callback\<close>

lemma handleInputMount_cases:
  "handleInputMount p ctx input ref =
     (case ref of
        None \<Rightarrow> (None, [])
      | Some r \<Rightarrow>
          if input = None then (if hashMatches p ctx then (Some r, [Focus r]) else (None, []))
          else (Some r, []))"
  by (auto simp add: handleInputMount_def hashMatches_def Let_def split: option.splits)

lemma refCallbacks_Cons:
  "snd (refCallbacks p ctx input (r # rs)) =
     snd (handleInputMount p ctx input r)
     @ snd (refCallbacks p ctx (fst (handleInputMount p ctx input r)) rs)"
  by (simp split: prod.splits)

lemma refCallbacks_no_match:
  "\<not> hashMatches p ctx \<Longrightarrow> snd (refCallbacks p ctx input refs) = []"
  by (induction refs arbitrary: input)
     (auto simp add: refCallbacks_Cons handleInputMount_cases simp del: refCallbacks.simps(2)
        split: option.splits)

lemma refCallbacks_mounted:
  "input \<noteq> None \<Longrightarrow> None \<notin> set refs \<Longrightarrow> snd (refCallbacks p ctx input refs) = []"
proof (induction refs arbitrary: input)
  case Nil
  then show ?case by simp
next
  case (Cons r rs)
  from Cons.prems obtain e where r: "r = Some e" by (cases r) auto
  have "snd (refCallbacks p ctx (Some e) rs) = []"
    using Cons.IH [of "Some e"] Cons.prems by simp
  with Cons.prems r show ?case
    by (auto simp add: refCallbacks_Cons handleInputMount_cases simp del: refCallbacks.simps(2))
qed

lemma refCallbacks_first_mount:
  "None \<notin> set refs \<Longrightarrow>
     snd (refCallbacks p ctx None refs) =
       (if hashMatches p ctx \<and> refs \<noteq> [] then [Focus (the (hd refs))] else [])"
proof (cases "hashMatches p ctx")
  case False
  then show ?thesis by (simp add: refCallbacks_no_match)
next
  case True
  assume nn: "None \<notin> set refs"
  show ?thesis
  proof (cases refs)
    case Nil
    then show ?thesis by simp
  next
    case (Cons r rs)
    with nn obtain e where r: "r = Some e" by (cases r) auto
    have "snd (refCallbacks p ctx (Some e) rs) = []"
      using nn Cons by (simp add: refCallbacks_mounted)
    with True Cons r show ?thesis
      by (simp add: refCallbacks_Cons handleInputMount_cases del: refCallbacks.simps(2))
  qed
qed

text \<open>
  One focus at most for each time an input is mounted: the calls are bounded by the
  unmounts (null references) in the sequence, plus one when no input is recorded at
  the start.
\<close>

lemma refCallbacks_bound:
  "length (snd (refCallbacks p ctx input refs)) \<le> Suc (count_list refs None)"
    and "input \<noteq> None \<Longrightarrow> length (snd (refCallbacks p ctx input refs)) \<le> count_list refs None"
proof (induction refs arbitrary: input)
  case Nil
  { case 1 show ?case by simp }
  { case 2 show ?case by simp }
next
  case (Cons r rs)
  { case 1
    show ?case
    proof (cases r)
      case None
      then show ?thesis using Cons.IH(1) [of None]
        by (simp add: refCallbacks_Cons handleInputMount_cases del: refCallbacks.simps(2))
    next
      case (Some e)
      then show ?thesis using Cons.IH(2) [of "Some e"] Cons.IH(1) [of None]
        by (auto simp add: refCallbacks_Cons handleInputMount_cases
              simp del: refCallbacks.simps(2))
    qed }
  { case 2
    show ?case
    proof (cases r)
      case None
      then show ?thesis using Cons.IH(1) [of None]
        by (simp add: refCallbacks_Cons handleInputMount_cases del: refCallbacks.simps(2))
    next
      case (Some e)
      then show ?thesis using Cons.IH(2) [of "Some e"] 2
        by (auto simp add: refCallbacks_Cons handleInputMount_cases
              simp del: refCallbacks.simps(2))
    qed }
qed

lemma refCallbacks_append:
  "refCallbacks p ctx input (xs @ ys) =
     (fst (refCallbacks p ctx (fst (refCallbacks p ctx input xs)) ys),
      snd (refCallbacks p ctx input xs)
      @ snd (refCallbacks p ctx (fst (refCallbacks p ctx input xs)) ys))"
  by (induction xs arbitrary: input) (simp_all split: prod.splits)

lemma refCallbacks_refocus:
  "hashMatches p ctx \<Longrightarrow>
     snd (refCallbacks p ctx input (xs @ None # Some r # ys)) =
       snd (refCallbacks p ctx input xs) @ Focus r # snd (refCallbacks p ctx (Some r) ys)"
  by (simp add: refCallbacks_append [of p ctx input xs] refCallbacks_Cons handleInputMount_cases
        del: refCallbacks.simps(2))

text \<open>
  C7, as amended. If the location's fragment is absent or is not \<^verbatim>\<open>#\<close> followed by the
  field's name, no sequence of input-mount callbacks focuses the input. Across a sequence
  of callbacks none of which passes null (the input is not unmounted), starting with no
  input recorded, the input is focused at most once: at the first callback, on the
  element passed there, and only when the fragment is exactly \<^verbatim>\<open>#\<close> followed by the name.
  When the fragment matches, an element mounted right after a null callback is focused
  again, wherever in the sequence that happens. Across any sequence, the focus calls are
  at most one more than the null references in it.
\<close>

theorem focus_on_first_mount:
  "(guarded_get (location ctx) ''hash'' \<noteq> JStr (CHR ''#'' # name p) \<longrightarrow>
      snd (refCallbacks p ctx input refs) = []) \<and>
   (None \<notin> set refs \<longrightarrow>
      snd (refCallbacks p ctx None refs) =
        (if guarded_get (location ctx) ''hash'' = JStr (CHR ''#'' # name p) \<and> refs \<noteq> []
         then [Focus (the (hd refs))] else [])) \<and>
   length (snd (refCallbacks p ctx input refs)) \<le> Suc (count_list refs None) \<and>
   (guarded_get (location ctx) ''hash'' = JStr (CHR ''#'' # name p) \<longrightarrow>
      snd (refCallbacks p ctx input (refs @ None # Some r # after)) =
        snd (refCallbacks p ctx input refs) @ Focus r # snd (refCallbacks p ctx (Some r) after))"
  using refCallbacks_no_match [of p ctx input refs] refCallbacks_first_mount [of refs p ctx]
    refCallbacks_bound(1) [of p ctx input refs] refCallbacks_refocus [of p ctx input refs r after]
  by (simp add: hashMatches_def)

theorem focus_on_first_mount_witness:
  "None \<notin> set [Some (1::nat), Some 1] \<and>
   snd (refCallbacks example_props example_context None [Some 1, Some 1]) = [Focus 1] \<and>
   guarded_get (location example_context) ''hash''
     \<noteq> JStr (CHR ''#'' # name (example_props\<lparr>name := ''username''\<rparr>)) \<and>
   snd (refCallbacks (example_props\<lparr>name := ''username''\<rparr>) example_context None
     [Some 1, None, Some 1]) = [] \<and>
   guarded_get (location example_context) ''hash'' = JStr (CHR ''#'' # name example_props) \<and>
   snd (refCallbacks example_props example_context None ([Some 1, Some 1] @ None # Some 2 # []))
     = [Focus 1, Focus 2]"
  using focus_on_first_mount [of example_context example_props None "[Some 1, Some 1]" 2 "[]"]
    focus_on_first_mount [of example_context "example_props\<lparr>name := ''username''\<rparr>" None
      "[Some 1, None, Some 1]" 2 "[]"]
  by (simp add: example_props_def example_context_def)

text \<open>
  C7 as stated fails when the input is unmounted and mounted again: with the fragment
  \<^verbatim>\<open>#email\<close>, the callbacks element, null, element focus the \<^verbatim>\<open>email\<close> input twice.
\<close>

theorem focus_twice_counterexample:
  "snd (refCallbacks example_props example_context None [Some 1, None, Some 1])
     = [Focus 1, Focus 1]"
  by (simp add: handleInputMount_def example_props_def example_context_def Let_def)

end
